theory Spec2Isabelle
  imports Main
begin

section \<open>Interactive database actions of weectllib (db_actions.py)\<close>

text \<open>
  The module is glue around external collaborators: the configuration loader, the
  database manager, the date parser and the yes/no prompt. Each action is modelled as a
  function from an environment (the outcome of every external call the action can make)
  to the trace of observable events it produces, in order, together with its result:
  \<open>Inr ()\<close> when the action returns normally, \<open>Inl e\<close> when the exception \<open>e\<close>
  propagates out of it.
\<close>

subsection \<open>Exceptions, dates, events\<close>

text \<open>
  \<open>OperationalError\<close> stands for \<open>weedb.OperationalError\<close> and its subclasses (what
  \<open>except weedb.OperationalError\<close> catches), with the text of the exception;
  \<open>OtherException\<close> is any exception that clause does not catch.
\<close>

datatype exn = OperationalError string | OtherException string

text \<open>A \<open>datetime.date\<close>: year, month, day.\<close>

datatype date = Date nat nat nat

datatype event =
    Print string
  | PrintErr string
  | LogInfo string
  | StdoutFlush
  | ReadConfig string
  | GetManagerDict string
  | ParseDates "string option" "string option" "string option"
  | YOrN string
  | OpenManager string bool
  | CloseManager
  | DropDaily
  | BackfillDaySummary "date option" "date option" nat

type_synonym 'a io = "event list \<times> (exn + 'a)"

text \<open>
  The environment of one invocation. \<open>read_config\<close> gives the resolved path of the
  configuration file; \<open>manager_database_name\<close> is
  \<open>get_manager_dict_from_config(...)['database_dict']['database_name']\<close>;
  \<open>open_manager_with_config\<close> takes the binding and the \<open>initialize\<close> flag and gives the
  \<open>database_name\<close> of the opened manager; \<open>backfill_day_summary\<close> gives
  \<open>(nrecs, ndays)\<close>. \<open>tdiff_2f\<close> is the text of \<open>time.time() - t1\<close> under the format
  \<open>.2f\<close> (floating point is not modelled). \<open>BOLD\<close> and \<open>ENDC\<close> are the two constants of
  \<open>weeutil.bcolors\<close>.
\<close>

record env =
  read_config :: "string \<Rightarrow> exn + string"
  manager_database_name :: "string \<Rightarrow> exn + string"
  parse_dates :: "string option \<Rightarrow> string option \<Rightarrow> string option
                    \<Rightarrow> exn + (date option \<times> date option)"
  y_or_n :: "string \<Rightarrow> string"
  open_manager_with_config :: "string \<Rightarrow> bool \<Rightarrow> exn + string"
  drop_daily_result :: "exn + unit"
  backfill_day_summary :: "date option \<Rightarrow> date option \<Rightarrow> nat \<Rightarrow> exn + (int \<times> int)"
  tdiff_2f :: string
  BOLD :: string
  ENDC :: string

subsection \<open>Text formatting\<close>

definition digit_char :: "nat \<Rightarrow> char" where
  "digit_char d = ''0123456789'' ! d"

fun str_nat :: "nat \<Rightarrow> string" where
  "str_nat n = (if n < 10 then [digit_char n] else str_nat (n div 10) @ [digit_char (n mod 10)])"

declare str_nat.simps [simp del]

text \<open>\<open>str\<close> of a Python integer, as an f-string field \<open>{nrecs}\<close> renders it.\<close>

definition str_int :: "int \<Rightarrow> string" where
  "str_int i = (if i < 0 then CHR ''-'' # str_nat (nat (- i)) else str_nat (nat i))"

definition zfill :: "nat \<Rightarrow> string \<Rightarrow> string" where
  "zfill w s = replicate (w - length s) CHR ''0'' @ s"

text \<open>\<open>str\<close> of a \<open>datetime.date\<close> is its ISO form \<open>YYYY-MM-DD\<close>.\<close>

fun str_date :: "date \<Rightarrow> string" where
  "str_date (Date y m d) =
     zfill 4 (str_nat y) @ ''-'' @ zfill 2 (str_nat m) @ ''-'' @ zfill 2 (str_nat d)"

text \<open>A name between single quotes, as in \<open>'{database_name}'\<close>.\<close>

definition quoted :: "string \<Rightarrow> string" where
  "quoted s = [CHR 0x27] @ s @ [CHR 0x27]"

subsection \<open>Sequencing, exceptions, the with statement\<close>

definition io_return :: "'a \<Rightarrow> 'a io" where
  "io_return x = ([], Inr x)"

definition io_bind :: "'a io \<Rightarrow> ('a \<Rightarrow> 'b io) \<Rightarrow> 'b io" where
  "io_bind m f =
     (case snd m of
        Inl e \<Rightarrow> (fst m, Inl e)
      | Inr x \<Rightarrow> (fst m @ fst (f x), snd (f x)))"

text \<open>An external call: the event is recorded, the outcome is the environment's.\<close>

definition call :: "event \<Rightarrow> exn + 'a \<Rightarrow> 'a io" where
  "call ev r = ([ev], r)"

definition emit :: "event \<Rightarrow> unit io" where
  "emit ev = ([ev], Inr ())"

definition print_out :: "string \<Rightarrow> unit io" where
  "print_out s = emit (Print s)"

text \<open>
  \<open>try: m except weedb.OperationalError as e: h e else: k\<close>. The handler and the else
  branch are outside the protected region.
\<close>

definition try_except_else :: "'a io \<Rightarrow> (string \<Rightarrow> 'b io) \<Rightarrow> ('a \<Rightarrow> 'b io) \<Rightarrow> 'b io" where
  "try_except_else m h k =
     (case snd m of
        Inl (OperationalError s) \<Rightarrow> (fst m @ fst (h s), snd (h s))
      | Inl (OtherException s) \<Rightarrow> (fst m, Inl (OtherException s))
      | Inr x \<Rightarrow> (fst m @ fst (k x), snd (k x)))"

definition try_except :: "'a io \<Rightarrow> (string \<Rightarrow> 'a io) \<Rightarrow> 'a io" where
  "try_except m h = try_except_else m h io_return"

text \<open>
  \<open>with weewx.manager.open_manager_with_config(config_dict, db_binding, initialize) as
  dbmanager: body\<close>. When the open raises, the body does not run; when it returns, the
  manager is closed on every exit from the body. Closing is taken not to raise.
\<close>

definition with_manager :: "env \<Rightarrow> string \<Rightarrow> bool \<Rightarrow> (string \<Rightarrow> 'a io) \<Rightarrow> 'a io" where
  "with_manager e db_binding initialize body =
     io_bind (call (OpenManager db_binding initialize)
                   (open_manager_with_config e db_binding initialize))
       (\<lambda>dbmanager. (fst (body dbmanager) @ [CloseManager], snd (body dbmanager)))"

subsection \<open>create_database\<close>

definition create_database :: "env \<Rightarrow> string \<Rightarrow> string \<Rightarrow> bool \<Rightarrow> unit io" where
  "create_database e config_path db_binding dry_run =
     io_bind (if dry_run then print_out ''This is a dry run. Nothing will actually be done.''
              else io_return ()) (\<lambda>_.
     io_bind (call (ReadConfig config_path) (read_config e config_path)) (\<lambda>config_path'.
     io_bind (print_out (''The configuration file '' @ BOLD e @ config_path' @ ENDC e
                          @ '' will be used.'')) (\<lambda>_.
     try_except
       (with_manager e db_binding False (\<lambda>database_name.
          print_out (''Database '' @ quoted database_name @ '' already exists. Nothing done.'')))
       (\<lambda>_. if \<not> dry_run
             then with_manager e db_binding True (\<lambda>database_name.
                    print_out (''Created database '' @ quoted database_name @ ''.''))
             else io_return ()))))"

subsection \<open>drop_daily\<close>

definition drop_daily :: "env \<Rightarrow> string \<Rightarrow> string \<Rightarrow> bool \<Rightarrow> unit io" where
  "drop_daily e config_path db_binding dry_run =
     io_bind (if dry_run then print_out ''This is a dry run. Nothing will actually be done.''
              else io_return ()) (\<lambda>_.
     io_bind (call (ReadConfig config_path) (read_config e config_path)) (\<lambda>config_path'.
     io_bind (print_out (''The configuration file '' @ BOLD e @ config_path' @ ENDC e
                          @ '' will be used.'')) (\<lambda>_.
     io_bind (call (GetManagerDict db_binding) (manager_database_name e db_binding))
       (\<lambda>database_name.
     io_bind (print_out (''Proceeding will delete all your daily summaries from database ''
                          @ quoted database_name)) (\<lambda>_.
     io_bind (call (YOrN ''Are you sure you want to proceed (y/n)? '')
                   (Inr (y_or_n e ''Are you sure you want to proceed (y/n)? ''))) (\<lambda>ans.
     io_bind
       (if ans = ''y'' then
          io_bind (print_out (''Dropping daily summary tables from '' @ quoted database_name
                               @ '' ... '')) (\<lambda>_.
          try_except
            (with_manager e db_binding False (\<lambda>_.
               try_except_else
                 (if \<not> dry_run then call DropDaily (drop_daily_result e) else io_return ())
                 (\<lambda>err.
                    io_bind (emit (PrintErr (''Error '' @ quoted err))) (\<lambda>_.
                    print_out (''Drop daily summary tables failed for database ''
                                @ quoted database_name)))
                 (\<lambda>_.
                    print_out (''Daily summary tables dropped from database ''
                                @ quoted database_name @ '' in '' @ tdiff_2f e @ '' seconds''))))
            (\<lambda>_. print_out (''No daily summaries found in database '' @ quoted database_name
                              @ ''. Nothing done.'')))
        else print_out ''Nothing done.'') (\<lambda>_.
     if dry_run then print_out ''This was a dry run. Nothing was actually done.''
     else io_return ())))))))"

subsection \<open>rebuild_daily\<close>

text \<open>
  Truth value of a parsed date: \<open>None\<close> is false, and a \<open>datetime.date\<close> is always
  true. \<open>str_opt_date\<close> is what an f-string field renders for such a value.
\<close>

fun truthy :: "date option \<Rightarrow> bool" where
  "truthy None = False"
| "truthy (Some _) = True"

fun str_opt_date :: "date option \<Rightarrow> string" where
  "str_opt_date None = ''None''"
| "str_opt_date (Some d) = str_date d"

text \<open>
  In the plural message the second string literal of the source is not an f-string, so
  the text \<open>{tdiff:.2f}\<close> is printed as it stands.
\<close>

definition rebuild_daily ::
  "env \<Rightarrow> string \<Rightarrow> string \<Rightarrow> string option \<Rightarrow> string option \<Rightarrow> string option \<Rightarrow> bool
     \<Rightarrow> unit io" where
  "rebuild_daily e config_path db_binding date from_date to_date dry_run =
     io_bind (if dry_run then print_out ''This is a dry run. Nothing will actually be done.''
              else io_return ()) (\<lambda>_.
     io_bind (call (ReadConfig config_path) (read_config e config_path)) (\<lambda>config_path'.
     io_bind (print_out (''The configuration file '' @ BOLD e @ config_path' @ ENDC e
                          @ '' will be used.'')) (\<lambda>_.
     io_bind (call (GetManagerDict db_binding) (manager_database_name e db_binding))
       (\<lambda>database_name.
     io_bind (call (ParseDates date from_date to_date) (parse_dates e date from_date to_date))
       (\<lambda>(from_d, to_d).
     let msg =
       (if \<not> truthy from_d \<and> \<not> truthy to_d then
          ''All daily summaries will be rebuilt.''
        else if truthy from_d \<and> \<not> truthy to_d then
          ''Daily summaries starting with '' @ str_opt_date from_d @ '' will be rebuilt.''
        else if \<not> truthy from_d \<and> truthy to_d then
          ''Daily summaries through '' @ str_opt_date to_d @ '' will be rebuilt.''
        else if from_d = to_d then
          ''Daily summary for '' @ str_opt_date from_d @ '' will be rebuilt.''
        else
          ''Daily summaries from '' @ str_opt_date from_d @ '' through '' @ str_opt_date to_d
            @ '', inclusive, will be rebuilt.'')
     in
     io_bind (emit (LogInfo msg)) (\<lambda>_.
     io_bind (print_out msg) (\<lambda>_.
     io_bind (call (YOrN (''Rebuild the daily summaries in the database ''
                           @ quoted database_name @ ''? (y/n) ''))
                   (Inr (y_or_n e (''Rebuild the daily summaries in the database ''
                                    @ quoted database_name @ ''? (y/n) '')))) (\<lambda>ans.
     if ans = ''n'' then
       io_bind (emit (LogInfo ''Nothing done.'')) (\<lambda>_. print_out ''Nothing done.'')
     else
       io_bind (emit (LogInfo (''Rebuilding daily summaries in database ''
                                @ quoted database_name @ '' ...''))) (\<lambda>_.
       io_bind (print_out (''Rebuilding daily summaries in database ''
                            @ quoted database_name @ '' ...'')) (\<lambda>_.
       if dry_run then print_out ''This was a dry run. Nothing was actually done.''
       else
         io_bind (with_manager e db_binding True (\<lambda>_.
                    call (BackfillDaySummary from_d to_d 20)
                         (backfill_day_summary e from_d to_d 20))) (\<lambda>(nrecs, ndays).
         io_bind (emit (LogInfo (''Rebuild of daily summaries in database ''
                                  @ quoted database_name @ '' complete.''))) (\<lambda>_.
         if nrecs \<noteq> 0 then
           io_bind (emit StdoutFlush) (\<lambda>_.
           io_bind (if nrecs \<ge> 1000 then print_out [] else io_return ()) (\<lambda>_.
           io_bind (print_out
                      (if ndays = 1 then
                         ''Processed '' @ str_int nrecs
                           @ '' records to rebuild 1 daily summary in '' @ tdiff_2f e
                           @ '' seconds.''
                       else
                         ''Processed '' @ str_int nrecs @ '' records to rebuild ''
                           @ str_int ndays @ '' daily summaries in {tdiff:.2f} seconds.''))
             (\<lambda>_.
           print_out (''Rebuild of daily summaries in database '' @ quoted database_name
                       @ '' complete.''))))
         else
           print_out (''Daily summaries up to date in '' @ quoted database_name @ ''.'')))))
     ))))))))"

subsection \<open>Observations on a trace\<close>

text \<open>The calls that change the database: an initializing open, a drop, a backfill.\<close>

fun mutating :: "event \<Rightarrow> bool" where
  "mutating (OpenManager _ initialize) = initialize"
| "mutating DropDaily = True"
| "mutating (BackfillDaySummary _ _ _) = True"
| "mutating _ = False"

fun creation_call :: "event \<Rightarrow> bool" where
  "creation_call (OpenManager _ initialize) = initialize"
| "creation_call _ = False"

fun backfill_call :: "event \<Rightarrow> bool" where
  "backfill_call (BackfillDaySummary _ _ _) = True"
| "backfill_call _ = False"

fun open_call :: "event \<Rightarrow> bool" where
  "open_call (OpenManager _ _) = True"
| "open_call _ = False"

text \<open>A printed line that starts with \<open>Created database\<close>.\<close>

fun created_message :: "event \<Rightarrow> bool" where
  "created_message (Print s) = (take 17 s = ''Created database '')"
| "created_message _ = False"

subsection \<open>Specification-side definitions\<close>

text \<open>
  The range description as the specification words it: five cases on the parsed pair.
\<close>

fun spec_range_description :: "date option \<Rightarrow> date option \<Rightarrow> string" where
  "spec_range_description None None = ''All daily summaries will be rebuilt.''"
| "spec_range_description (Some f) None =
     ''Daily summaries starting with '' @ str_date f @ '' will be rebuilt.''"
| "spec_range_description None (Some t) =
     ''Daily summaries through '' @ str_date t @ '' will be rebuilt.''"
| "spec_range_description (Some f) (Some t) =
     (if f = t then ''Daily summary for '' @ str_date f @ '' will be rebuilt.''
      else ''Daily summaries from '' @ str_date f @ '' through '' @ str_date t
             @ '', inclusive, will be rebuilt.'')"





subsection \<open>Sample environments\<close>

text \<open>
  In \<open>sample_env\<close> every external call succeeds, the user answers \<open>y\<close>, the parsed range
  starts on 2020-01-01 and is open-ended, and the backfill processes five records in two
  days. The others differ from it in one outcome each.
\<close>

definition sample_env :: env where
  "sample_env =
     \<lparr> read_config = (\<lambda>p. Inr p),
       manager_database_name = (\<lambda>b. Inr ''weewx''),
       parse_dates = (\<lambda>d f t. Inr (Some (Date 2020 1 1), None)),
       y_or_n = (\<lambda>p. ''y''),
       open_manager_with_config = (\<lambda>b i. Inr ''weewx''),
       drop_daily_result = Inr (),
       backfill_day_summary = (\<lambda>f t n. Inr (5, 2)),
       tdiff_2f = ''0.42'',
       BOLD = ''<b>'',
       ENDC = ''</b>'' \<rparr>"

text \<open>No open succeeds.\<close>

definition unopenable_env :: env where
  "unopenable_env =
     sample_env\<lparr>open_manager_with_config :=
       (\<lambda>b i. Inl (OperationalError ''unable to open database file''))\<rparr>"

text \<open>The database does not exist yet: only an initializing open succeeds.\<close>

definition missing_env :: env where
  "missing_env =
     sample_env\<lparr>open_manager_with_config :=
       (\<lambda>b i. if i then Inr ''weewx'' else Inl (OperationalError ''no such database''))\<rparr>"

text \<open>The drop raises an operational error.\<close>

definition locked_env :: env where
  "locked_env = sample_env\<lparr>drop_daily_result := Inl (OperationalError ''database is locked'')\<rparr>"

text \<open>The user answers \<open>n\<close>.\<close>

definition declining_env :: env where
  "declining_env = sample_env\<lparr>y_or_n := (\<lambda>p. ''n'')\<rparr>"

text \<open>The configuration file cannot be read.\<close>

definition unreadable_env :: env where
  "unreadable_env =
     sample_env\<lparr>read_config := (\<lambda>p. Inl (OtherException ''unable to open configuration file''))\<rparr>"

text \<open>An initializing open cannot complete; a simple open can.\<close>

definition uncreatable_env :: env where
  "uncreatable_env =
     sample_env\<lparr>open_manager_with_config :=
       (\<lambda>b i. if i then Inl (OperationalError ''unable to open database file'')
              else Inr ''weewx'')\<rparr>"

text \<open>A simple open cannot complete; an initializing open can.\<close>

definition busy_env :: env where
  "busy_env =
     sample_env\<lparr>open_manager_with_config :=
       (\<lambda>b i. if i then Inr ''weewx'' else Inl (OperationalError ''database is locked''))\<rparr>"

section \<open>Properties\<close>

lemmas io_defs = io_bind_def io_return_def call_def emit_def print_out_def
  try_except_def try_except_else_def with_manager_def

lemmas sample_defs = sample_env_def unopenable_env_def missing_env_def locked_env_def
  declining_env_def unreadable_env_def uncreatable_env_def busy_env_def

lemma str_int_5: "str_int 5 = ''5''"
  by (simp add: str_int_def str_nat.simps digit_char_def)

lemma str_int_2: "str_int 2 = ''2''"
  by (simp add: str_int_def str_nat.simps digit_char_def)

lemma str_date_2020_01_01: "str_date (Date 2020 1 1) = ''2020-01-01''"
  by (simp add: zfill_def str_nat.simps digit_char_def)

subsection \<open>The result report of rebuild_daily\<close>

text \<open>
  What a confirmed rebuild that is not a dry run prints after a backfill that returned
  \<open>(nrecs, ndays)\<close>: the up-to-date line when \<open>nrecs\<close> is zero; otherwise a flush, a blank
  line when \<open>nrecs \<ge> 1000\<close>, the count message and the completion line. The singular
  count message holds the elapsed time; the plural one holds the text \<open>{tdiff:.2f}\<close>.
\<close>

lemma rebuild_daily_report:
  assumes "read_config e config_path = Inr p"
      and "manager_database_name e db_binding = Inr database_name"
      and "parse_dates e date from_date to_date = Inr (from_d, to_d)"
      and "y_or_n e (''Rebuild the daily summaries in the database '' @ quoted database_name
                      @ ''? (y/n) '') \<noteq> ''n''"
      and "open_manager_with_config e db_binding True = Inr h"
      and "backfill_day_summary e from_d to_d 20 = Inr (nrecs, ndays)"
  shows "\<exists>pre.
           rebuild_daily e config_path db_binding date from_date to_date False =
             (pre @
              (if nrecs \<noteq> 0 then
                 [StdoutFlush] @ (if nrecs \<ge> 1000 then [Print []] else []) @
                 [Print (if ndays = 1 then
                           ''Processed '' @ str_int nrecs
                             @ '' records to rebuild 1 daily summary in '' @ tdiff_2f e
                             @ '' seconds.''
                         else
                           ''Processed '' @ str_int nrecs @ '' records to rebuild ''
                             @ str_int ndays @ '' daily summaries in {tdiff:.2f} seconds.''),
                  Print (''Rebuild of daily summaries in database '' @ quoted database_name
                          @ '' complete.'')]
               else
                 [Print (''Daily summaries up to date in '' @ quoted database_name @ ''.'')]),
              Inr ())"
  using assms
  by (simp add: rebuild_daily_def io_defs Let_def)

text \<open>
  C1. A confirmed rebuild that is not a dry run and processes records in more than one
  day should report the elapsed time in its count message. At a backfill result of five
  records in two days the printed message ends in the unformatted text
  \<open>{tdiff:.2f} seconds.\<close>, and the whole run is the same whatever the elapsed time is.
\<close>

theorem rebuild_daily_plural_message_without_elapsed:
  "Print ''Processed 5 records to rebuild 2 daily summaries in {tdiff:.2f} seconds.''
     \<in> set (fst (rebuild_daily sample_env ''weewx.conf'' ''wx_binding'' None None None False))
   \<and> rebuild_daily (sample_env\<lparr>tdiff_2f := ''99.00''\<rparr>) ''weewx.conf'' ''wx_binding''
         None None None False
       = rebuild_daily sample_env ''weewx.conf'' ''wx_binding'' None None None False"
  by (simp add: rebuild_daily_def io_defs Let_def sample_env_def str_int_5 str_int_2)

subsection \<open>Dry runs\<close>

lemma create_database_dry_run_frame:
  "filter mutating (fst (create_database e config_path db_binding True)) = []"
  by (simp add: create_database_def io_defs split: sum.splits exn.splits)

lemma drop_daily_dry_run_frame:
  "filter mutating (fst (drop_daily e config_path db_binding True)) = []"
  by (simp add: drop_daily_def io_defs split: sum.splits exn.splits)

lemma rebuild_daily_dry_run_frame:
  "filter mutating
     (fst (rebuild_daily e config_path db_binding date from_date to_date True)) = []"
  by (simp add: rebuild_daily_def io_defs Let_def split: sum.splits exn.splits prod.splits)

text \<open>
  C2. With \<open>dry_run\<close> true, none of the three actions makes a mutating call (an
  initializing open, a drop, a backfill), whatever the environment answers: any
  confirmation, any outcome of the opens, of the configuration read and of the date
  parser.
\<close>

theorem dry_run_no_mutating_call:
  "filter mutating (fst (create_database e config_path db_binding True)) = []
   \<and> filter mutating (fst (drop_daily e config_path db_binding True)) = []
   \<and> filter mutating
       (fst (rebuild_daily e config_path db_binding date from_date to_date True)) = []"
  by (simp only: create_database_dry_run_frame drop_daily_dry_run_frame
      rebuild_daily_dry_run_frame simp_thms)

theorem dry_run_no_mutating_call_witness:
  "filter mutating (fst (create_database missing_env ''weewx.conf'' ''wx_binding'' True)) = []
   \<and> filter mutating (fst (drop_daily sample_env ''weewx.conf'' ''wx_binding'' True)) = []
   \<and> filter mutating
       (fst (rebuild_daily sample_env ''weewx.conf'' ''wx_binding'' None None None True)) = []"
  using dry_run_no_mutating_call [of missing_env "''weewx.conf''" "''wx_binding''"]
        dry_run_no_mutating_call [of sample_env "''weewx.conf''" "''wx_binding''" None None None]
  by simp

text \<open>
  C10. A dry run of \<open>create_database\<close> whose open fails with an operational error (the
  database does not exist) swallows the error and returns normally. Its whole output is
  the dry-run notice and the configuration line: no line about an existing or a created
  database, and no error line.
\<close>

theorem create_database_dry_run_missing_silent:
  assumes "read_config e config_path = Inr p"
      and "open_manager_with_config e db_binding False = Inl (OperationalError s)"
  shows "create_database e config_path db_binding True =
           ([Print ''This is a dry run. Nothing will actually be done.'',
             ReadConfig config_path,
             Print (''The configuration file '' @ BOLD e @ p @ ENDC e @ '' will be used.''),
             OpenManager db_binding False],
            Inr ())"
  using assms by (simp add: create_database_def io_defs)

theorem create_database_dry_run_missing_silent_witness:
  "read_config missing_env ''weewx.conf'' = Inr ''weewx.conf''
   \<and> open_manager_with_config missing_env ''wx_binding'' False
       = Inl (OperationalError ''no such database'')
   \<and> create_database missing_env ''weewx.conf'' ''wx_binding'' True =
       ([Print ''This is a dry run. Nothing will actually be done.'',
         ReadConfig ''weewx.conf'',
         Print ''The configuration file <b>weewx.conf</b> will be used.'',
         OpenManager ''wx_binding'' False],
        Inr ())"
proof -
  have h1: "read_config missing_env ''weewx.conf'' = Inr ''weewx.conf''"
    by (simp add: sample_defs)
  have h2: "open_manager_with_config missing_env ''wx_binding'' False
              = Inl (OperationalError ''no such database'')"
    by (simp add: sample_defs)
  show ?thesis
    using h1 h2 create_database_dry_run_missing_silent [OF h1 h2]
    by (simp add: sample_defs)
qed

subsection \<open>create_database\<close>

text \<open>
  C5. When the first open succeeds, \<open>create_database\<close> makes no initializing open and
  prints the already-exists line. When the first open fails with an operational error and
  the run is not a dry run, it makes exactly one initializing open; the created line is
  printed, and the action returns normally, when that open succeeds; when that open
  raises, no created line is printed and the exception propagates.
\<close>

theorem create_database_existing_or_created:
  assumes "read_config e config_path = Inr p"
  shows "(open_manager_with_config e db_binding False = Inr name \<longrightarrow>
            filter creation_call (fst (create_database e config_path db_binding dry_run)) = []
          \<and> Print (''Database '' @ quoted name @ '' already exists. Nothing done.'')
              \<in> set (fst (create_database e config_path db_binding dry_run)))
       \<and> (open_manager_with_config e db_binding False = Inl (OperationalError s)
            \<and> \<not> dry_run \<longrightarrow>
            filter creation_call (fst (create_database e config_path db_binding dry_run))
              = [OpenManager db_binding True]
          \<and> (open_manager_with_config e db_binding True = Inr name' \<longrightarrow>
               Print (''Created database '' @ quoted name' @ ''.'')
                 \<in> set (fst (create_database e config_path db_binding dry_run))
             \<and> snd (create_database e config_path db_binding dry_run) = Inr ())
          \<and> (open_manager_with_config e db_binding True = Inl x \<longrightarrow>
               \<not> list_ex created_message
                    (fst (create_database e config_path db_binding dry_run))
             \<and> snd (create_database e config_path db_binding dry_run) = Inl x))"
  using assms
  by (auto simp add: create_database_def io_defs quoted_def split: sum.splits exn.splits)

theorem create_database_existing_or_created_witness:
  "filter creation_call (fst (create_database sample_env ''weewx.conf'' ''wx_binding'' False))
     = []
   \<and> Print (''Database '' @ quoted ''weewx'' @ '' already exists. Nothing done.'')
       \<in> set (fst (create_database sample_env ''weewx.conf'' ''wx_binding'' False))
   \<and> filter creation_call (fst (create_database missing_env ''weewx.conf'' ''wx_binding'' False))
       = [OpenManager ''wx_binding'' True]
   \<and> Print (''Created database '' @ quoted ''weewx'' @ ''.'')
       \<in> set (fst (create_database missing_env ''weewx.conf'' ''wx_binding'' False))
   \<and> snd (create_database missing_env ''weewx.conf'' ''wx_binding'' False) = Inr ()
   \<and> snd (create_database unopenable_env ''weewx.conf'' ''wx_binding'' False)
       = Inl (OperationalError ''unable to open database file'')"
proof -
  have h: "read_config sample_env ''weewx.conf'' = Inr ''weewx.conf''"
          "read_config missing_env ''weewx.conf'' = Inr ''weewx.conf''"
          "read_config unopenable_env ''weewx.conf'' = Inr ''weewx.conf''"
    by (simp_all add: sample_defs)
  show ?thesis
    using create_database_existing_or_created [OF h(1), where db_binding = "''wx_binding''"
            and name = "''weewx''" and dry_run = False and s = "''''" and name' = "''''"
            and x = "OtherException ''''"]
          create_database_existing_or_created [OF h(2), where db_binding = "''wx_binding''"
            and name = "''''" and dry_run = False and s = "''no such database''"
            and name' = "''weewx''" and x = "OtherException ''''"]
          create_database_existing_or_created [OF h(3), where db_binding = "''wx_binding''"
            and name = "''''" and dry_run = False and s = "''unable to open database file''"
            and name' = "''''" and x = "OperationalError ''unable to open database file''"]
    by (simp add: sample_defs)
qed

text \<open>
  The claim as stated promises the created line whenever the first open fails and the
  run is not a dry run. When the initializing open raises as well, there is one
  initializing open and no created line.
\<close>

theorem create_database_creation_counterexample:
  "\<not> (length (filter creation_call
          (fst (create_database unopenable_env ''weewx.conf'' ''wx_binding'' False))) = 1
      \<and> list_ex created_message
          (fst (create_database unopenable_env ''weewx.conf'' ''wx_binding'' False)))"
  by (simp add: create_database_def io_defs sample_defs)







subsection \<open>drop_daily\<close>

text \<open>
  C3. In a confirmed \<open>drop_daily\<close>, an operational error raised by the drop after a
  successful open is caught: the error text goes to stderr, the drop-failed line is
  printed and the action returns normally. An operational error raised by the open is
  caught as well: the no-daily-summaries line is printed, no drop is attempted and the
  action returns normally. Each path prints its own line and not the other's.
\<close>

theorem drop_daily_operational_errors:
  assumes "read_config e config_path = Inr p"
      and "manager_database_name e db_binding = Inr database_name"
      and "y_or_n e ''Are you sure you want to proceed (y/n)? '' = ''y''"
  shows "(open_manager_with_config e db_binding False = Inr h
            \<and> drop_daily_result e = Inl (OperationalError err) \<and> \<not> dry_run \<longrightarrow>
            snd (drop_daily e config_path db_binding dry_run) = Inr ()
          \<and> PrintErr (''Error '' @ quoted err)
              \<in> set (fst (drop_daily e config_path db_binding dry_run))
          \<and> Print (''Drop daily summary tables failed for database '' @ quoted database_name)
              \<in> set (fst (drop_daily e config_path db_binding dry_run))
          \<and> Print (''No daily summaries found in database '' @ quoted database_name
                     @ ''. Nothing done.'')
              \<notin> set (fst (drop_daily e config_path db_binding dry_run)))
       \<and> (open_manager_with_config e db_binding False = Inl (OperationalError err) \<longrightarrow>
            snd (drop_daily e config_path db_binding dry_run) = Inr ()
          \<and> Print (''No daily summaries found in database '' @ quoted database_name
                     @ ''. Nothing done.'')
              \<in> set (fst (drop_daily e config_path db_binding dry_run))
          \<and> Print (''Drop daily summary tables failed for database '' @ quoted database_name)
              \<notin> set (fst (drop_daily e config_path db_binding dry_run))
          \<and> DropDaily \<notin> set (fst (drop_daily e config_path db_binding dry_run)))"
  using assms by (auto simp add: drop_daily_def io_defs quoted_def)

theorem drop_daily_operational_errors_witness:
  "snd (drop_daily locked_env ''weewx.conf'' ''wx_binding'' False) = Inr ()
   \<and> PrintErr (''Error '' @ quoted ''database is locked'')
       \<in> set (fst (drop_daily locked_env ''weewx.conf'' ''wx_binding'' False))
   \<and> Print (''Drop daily summary tables failed for database '' @ quoted ''weewx'')
       \<in> set (fst (drop_daily locked_env ''weewx.conf'' ''wx_binding'' False))
   \<and> snd (drop_daily unopenable_env ''weewx.conf'' ''wx_binding'' False) = Inr ()
   \<and> Print (''No daily summaries found in database '' @ quoted ''weewx'' @ ''. Nothing done.'')
       \<in> set (fst (drop_daily unopenable_env ''weewx.conf'' ''wx_binding'' False))
   \<and> DropDaily \<notin> set (fst (drop_daily unopenable_env ''weewx.conf'' ''wx_binding'' False))"
proof -
  have l: "read_config locked_env ''weewx.conf'' = Inr ''weewx.conf''"
          "manager_database_name locked_env ''wx_binding'' = Inr ''weewx''"
          "y_or_n locked_env ''Are you sure you want to proceed (y/n)? '' = ''y''"
    by (simp_all add: sample_defs)
  have u: "read_config unopenable_env ''weewx.conf'' = Inr ''weewx.conf''"
          "manager_database_name unopenable_env ''wx_binding'' = Inr ''weewx''"
          "y_or_n unopenable_env ''Are you sure you want to proceed (y/n)? '' = ''y''"
    by (simp_all add: sample_defs)
  show ?thesis
    using drop_daily_operational_errors [OF l, where h = "''weewx''"
            and err = "''database is locked''" and dry_run = False]
          drop_daily_operational_errors [OF u, where h = "''weewx''"
            and err = "''unable to open database file''" and dry_run = False]
    by (simp add: sample_defs)
qed

text \<open>
  C9. A confirmed dry run of \<open>drop_daily\<close> whose open succeeds never calls the drop and
  still prints the tables-dropped line with the elapsed seconds. Its output is that of a
  real, successful drop in the same environment, without the drop call and between the
  two dry-run notices.
\<close>

theorem drop_daily_dry_run_reports_success:
  assumes "read_config e config_path = Inr p"
      and "manager_database_name e db_binding = Inr database_name"
      and "y_or_n e ''Are you sure you want to proceed (y/n)? '' = ''y''"
      and "open_manager_with_config e db_binding False = Inr h"
  shows "Print (''Daily summary tables dropped from database '' @ quoted database_name
                 @ '' in '' @ tdiff_2f e @ '' seconds'')
           \<in> set (fst (drop_daily e config_path db_binding True))
       \<and> DropDaily \<notin> set (fst (drop_daily e config_path db_binding True))
       \<and> drop_daily e config_path db_binding True =
           (Print ''This is a dry run. Nothing will actually be done.''
              # filter (\<lambda>ev. ev \<noteq> DropDaily)
                  (fst (drop_daily (e\<lparr>drop_daily_result := Inr ()\<rparr>) config_path db_binding
                          False))
              @ [Print ''This was a dry run. Nothing was actually done.''],
            Inr ())"
  using assms by (simp add: drop_daily_def io_defs quoted_def)

theorem drop_daily_dry_run_reports_success_witness:
  "open_manager_with_config sample_env ''wx_binding'' False = Inr ''weewx''
   \<and> Print (''Daily summary tables dropped from database '' @ quoted ''weewx''
             @ '' in 0.42 seconds'')
       \<in> set (fst (drop_daily sample_env ''weewx.conf'' ''wx_binding'' True))
   \<and> DropDaily \<notin> set (fst (drop_daily sample_env ''weewx.conf'' ''wx_binding'' True))"
proof -
  have h: "read_config sample_env ''weewx.conf'' = Inr ''weewx.conf''"
          "manager_database_name sample_env ''wx_binding'' = Inr ''weewx''"
          "y_or_n sample_env ''Are you sure you want to proceed (y/n)? '' = ''y''"
          "open_manager_with_config sample_env ''wx_binding'' False = Inr ''weewx''"
    by (simp_all add: sample_defs)
  have t: "tdiff_2f sample_env = ''0.42''"
    by (simp add: sample_defs)
  note r = drop_daily_dry_run_reports_success [OF h]
  show ?thesis
    using h(4) r [THEN conjunct1] r [THEN conjunct2, THEN conjunct1]
    by (simp add: t)
qed

subsection \<open>Declined confirmation\<close>

text \<open>
  C6. When the confirmation prompt returns \<open>n\<close>, \<open>drop_daily\<close> and \<open>rebuild_daily\<close>
  make no mutating call (no drop, no backfill, no initializing open), print the line
  \<open>Nothing done.\<close> and return normally.
\<close>

theorem declined_nothing_done:
  assumes "read_config e config_path = Inr p"
      and "manager_database_name e db_binding = Inr database_name"
  shows "(y_or_n e ''Are you sure you want to proceed (y/n)? '' = ''n'' \<longrightarrow>
            snd (drop_daily e config_path db_binding dry_run) = Inr ()
          \<and> filter mutating (fst (drop_daily e config_path db_binding dry_run)) = []
          \<and> Print ''Nothing done.'' \<in> set (fst (drop_daily e config_path db_binding dry_run)))
       \<and> (parse_dates e date from_date to_date = Inr (from_d, to_d)
            \<and> y_or_n e (''Rebuild the daily summaries in the database '' @ quoted database_name
                          @ ''? (y/n) '') = ''n'' \<longrightarrow>
            snd (rebuild_daily e config_path db_binding date from_date to_date dry_run) = Inr ()
          \<and> filter mutating
               (fst (rebuild_daily e config_path db_binding date from_date to_date dry_run)) = []
          \<and> last (fst (rebuild_daily e config_path db_binding date from_date to_date dry_run))
              = Print ''Nothing done.'')"
  using assms by (auto simp add: drop_daily_def rebuild_daily_def io_defs Let_def)

theorem declined_nothing_done_witness:
  "y_or_n declining_env ''Are you sure you want to proceed (y/n)? '' = ''n''
   \<and> snd (drop_daily declining_env ''weewx.conf'' ''wx_binding'' False) = Inr ()
   \<and> filter mutating (fst (drop_daily declining_env ''weewx.conf'' ''wx_binding'' False)) = []
   \<and> Print ''Nothing done.''
       \<in> set (fst (drop_daily declining_env ''weewx.conf'' ''wx_binding'' False))
   \<and> snd (rebuild_daily declining_env ''weewx.conf'' ''wx_binding'' None None None False)
       = Inr ()
   \<and> filter mutating
       (fst (rebuild_daily declining_env ''weewx.conf'' ''wx_binding'' None None None False))
       = []
   \<and> last (fst (rebuild_daily declining_env ''weewx.conf'' ''wx_binding'' None None None False))
       = Print ''Nothing done.''"
proof -
  have h: "read_config declining_env ''weewx.conf'' = Inr ''weewx.conf''"
          "manager_database_name declining_env ''wx_binding'' = Inr ''weewx''"
    by (simp_all add: sample_defs)
  show ?thesis
    using declined_nothing_done [OF h, where dry_run = False and date = None
            and from_date = None and to_date = None
            and from_d = "Some (Date 2020 1 1)" and to_d = None]
    by (simp add: sample_defs)
qed

subsection \<open>rebuild_daily\<close>

text \<open>
  C7. A confirmed \<open>rebuild_daily\<close> that is not a dry run opens the database exactly
  once, with \<open>initialize=True\<close>. When that open succeeds, \<open>backfill_day_summary\<close> is
  called exactly once, with the parsed dates and \<open>trans_days=20\<close>; when that open
  raises, the backfill is not called and the exception propagates.
\<close>

theorem rebuild_daily_backfill_call:
  assumes "read_config e config_path = Inr p"
      and "manager_database_name e db_binding = Inr database_name"
      and "parse_dates e date from_date to_date = Inr (from_d, to_d)"
      and "y_or_n e (''Rebuild the daily summaries in the database '' @ quoted database_name
                      @ ''? (y/n) '') \<noteq> ''n''"
  shows "filter open_call
           (fst (rebuild_daily e config_path db_binding date from_date to_date False))
           = [OpenManager db_binding True]
       \<and> (open_manager_with_config e db_binding True = Inr h \<longrightarrow>
            filter backfill_call
              (fst (rebuild_daily e config_path db_binding date from_date to_date False))
              = [BackfillDaySummary from_d to_d 20])
       \<and> (open_manager_with_config e db_binding True = Inl x \<longrightarrow>
            filter backfill_call
              (fst (rebuild_daily e config_path db_binding date from_date to_date False)) = []
          \<and> snd (rebuild_daily e config_path db_binding date from_date to_date False) = Inl x)"
  using assms
  by (auto simp add: rebuild_daily_def io_defs Let_def split: sum.splits prod.splits)

theorem rebuild_daily_backfill_call_witness:
  "filter open_call
     (fst (rebuild_daily sample_env ''weewx.conf'' ''wx_binding'' None None None False))
     = [OpenManager ''wx_binding'' True]
   \<and> filter backfill_call
       (fst (rebuild_daily sample_env ''weewx.conf'' ''wx_binding'' None None None False))
       = [BackfillDaySummary (Some (Date 2020 1 1)) None 20]
   \<and> snd (rebuild_daily unopenable_env ''weewx.conf'' ''wx_binding'' None None None False)
       = Inl (OperationalError ''unable to open database file'')"
proof -
  have s: "read_config sample_env ''weewx.conf'' = Inr ''weewx.conf''"
          "manager_database_name sample_env ''wx_binding'' = Inr ''weewx''"
          "parse_dates sample_env None None None = Inr (Some (Date 2020 1 1), None)"
          "y_or_n sample_env (''Rebuild the daily summaries in the database ''
             @ quoted ''weewx'' @ ''? (y/n) '') \<noteq> ''n''"
    by (simp_all add: sample_defs)
  have u: "read_config unopenable_env ''weewx.conf'' = Inr ''weewx.conf''"
          "manager_database_name unopenable_env ''wx_binding'' = Inr ''weewx''"
          "parse_dates unopenable_env None None None = Inr (Some (Date 2020 1 1), None)"
          "y_or_n unopenable_env (''Rebuild the daily summaries in the database ''
             @ quoted ''weewx'' @ ''? (y/n) '') \<noteq> ''n''"
    by (simp_all add: sample_defs)
  show ?thesis
    using rebuild_daily_backfill_call [OF s, where h = "''weewx''"
            and x = "OtherException ''''"]
          rebuild_daily_backfill_call [OF u, where h = "''weewx''"
            and x = "OperationalError ''unable to open database file''"]
    by (simp add: sample_defs)
qed

text \<open>
  The claim as stated promises one backfill call in every confirmed run that is not a
  dry run. When the initializing open raises, the body of the with statement does not
  run and no backfill call is made.
\<close>

theorem rebuild_daily_backfill_counterexample:
  "\<not> (filter backfill_call
        (fst (rebuild_daily unopenable_env ''weewx.conf'' ''wx_binding'' None None None False))
      = [BackfillDaySummary (Some (Date 2020 1 1)) None 20])"
  by (simp add: rebuild_daily_def io_defs Let_def sample_defs)

lemma range_message_cases:
  "(if \<not> truthy from_d \<and> \<not> truthy to_d then
      ''All daily summaries will be rebuilt.''
    else if truthy from_d \<and> \<not> truthy to_d then
      ''Daily summaries starting with '' @ str_opt_date from_d @ '' will be rebuilt.''
    else if \<not> truthy from_d \<and> truthy to_d then
      ''Daily summaries through '' @ str_opt_date to_d @ '' will be rebuilt.''
    else if from_d = to_d then
      ''Daily summary for '' @ str_opt_date from_d @ '' will be rebuilt.''
    else
      ''Daily summaries from '' @ str_opt_date from_d @ '' through '' @ str_opt_date to_d
        @ '', inclusive, will be rebuilt.'') = spec_range_description from_d to_d"
  by (cases from_d; cases to_d) simp_all

text \<open>
  C4. Once the dates are parsed, \<open>rebuild_daily\<close> logs and then prints one range
  description, and it is the one the five cases of the specification give for the parsed
  pair: both absent, only the start, only the end, both equal, both different. Nothing
  else is logged before the prompt.
\<close>

theorem rebuild_daily_range_description:
  assumes "read_config e config_path = Inr p"
      and "manager_database_name e db_binding = Inr database_name"
      and "parse_dates e date from_date to_date = Inr (from_d, to_d)"
  shows "\<exists>rest.
           fst (rebuild_daily e config_path db_binding date from_date to_date dry_run) =
             (if dry_run then [Print ''This is a dry run. Nothing will actually be done.'']
              else [])
             @ [ReadConfig config_path,
                Print (''The configuration file '' @ BOLD e @ p @ ENDC e @ '' will be used.''),
                GetManagerDict db_binding,
                ParseDates date from_date to_date,
                LogInfo (spec_range_description from_d to_d),
                Print (spec_range_description from_d to_d),
                YOrN (''Rebuild the daily summaries in the database '' @ quoted database_name
                       @ ''? (y/n) '')]
             @ rest"
  using assms
  by (auto simp add: rebuild_daily_def io_defs Let_def range_message_cases
      simp del: spec_range_description.simps split: sum.splits prod.splits)

theorem rebuild_daily_range_description_witness:
  "parse_dates sample_env None (Some ''2020-01-01'') None = Inr (Some (Date 2020 1 1), None)
   \<and> (\<exists>rest.
        fst (rebuild_daily sample_env ''weewx.conf'' ''wx_binding'' None (Some ''2020-01-01'')
               None False) =
          [ReadConfig ''weewx.conf'',
           Print ''The configuration file <b>weewx.conf</b> will be used.'',
           GetManagerDict ''wx_binding'',
           ParseDates None (Some ''2020-01-01'') None,
           LogInfo ''Daily summaries starting with 2020-01-01 will be rebuilt.'',
           Print ''Daily summaries starting with 2020-01-01 will be rebuilt.'',
           YOrN (''Rebuild the daily summaries in the database '' @ quoted ''weewx''
                  @ ''? (y/n) '')]
          @ rest)"
proof -
  have h: "read_config sample_env ''weewx.conf'' = Inr ''weewx.conf''"
          "manager_database_name sample_env ''wx_binding'' = Inr ''weewx''"
          "parse_dates sample_env None (Some ''2020-01-01'') None
             = Inr (Some (Date 2020 1 1), None)"
    by (simp_all add: sample_defs)
  have b: "BOLD sample_env = ''<b>''" "ENDC sample_env = ''</b>''"
    by (simp_all add: sample_defs)
  have d: "spec_range_description (Some (Date 2020 1 1)) None
             = ''Daily summaries starting with 2020-01-01 will be rebuilt.''"
    by (simp add: str_date_2020_01_01 del: str_date.simps One_nat_def)
  obtain rest where
    "fst (rebuild_daily sample_env ''weewx.conf'' ''wx_binding'' None (Some ''2020-01-01'')
            None False) =
       [ReadConfig ''weewx.conf'',
        Print (''The configuration file '' @ BOLD sample_env @ ''weewx.conf''
                 @ ENDC sample_env @ '' will be used.''),
        GetManagerDict ''wx_binding'',
        ParseDates None (Some ''2020-01-01'') None,
        LogInfo (spec_range_description (Some (Date 2020 1 1)) None),
        Print (spec_range_description (Some (Date 2020 1 1)) None),
        YOrN (''Rebuild the daily summaries in the database '' @ quoted ''weewx''
               @ ''? (y/n) '')]
       @ rest"
    using rebuild_daily_range_description [OF h, where dry_run = False] by auto
  then show ?thesis
    using h(3) by (simp add: b d del: spec_range_description.simps One_nat_def)
qed

end
